theory Spec2Isabelle
  imports Complex_Main
begin

section \<open>Python values and TensorFlow graph nodes\<close>

text \<open>
  The module \<^verbatim>\<open>adanet/core/testing_utils.py\<close> builds fixtures for unit tests. Its
  helpers call into TensorFlow, which is a library outside this repository. Each
  TensorFlow call of the source is represented by the graph node (or export object) the
  call constructs, with the arguments the source passes: \<open>RandomNormal shape seed\<close> is
  \<^verbatim>\<open>tf.random_normal(shape=shape, seed=seed)\<close>, and so on. The source itself has no
  \<^verbatim>\<open>raise\<close> statement; where it hands a value of its caller to a TensorFlow call that
  validates it (\<^verbatim>\<open>tf.constant\<close> in \<^verbatim>\<open>dummy_input_fn\<close>, \<^verbatim>\<open>tf.estimator.EstimatorSpec\<close> in
  \<^verbatim>\<open>dummy_estimator_spec\<close>), the call is modelled with its validation and returns the
  exception it raises (\<open>Inl\<close>) or its value (\<open>Inr\<close>).

  Python values are dynamically typed; \<open>pyval\<close> is the universe of the values the
  helpers receive, store and return. A Python \<^verbatim>\<open>float\<close> is carried as a real number: the
  module never computes with floats, it only stores them or hands them to TensorFlow.
  \<open>PObject\<close> stands for any other object with the default identity equality.
\<close>

datatype error =
    TypeError
  | ValueError
  | FileNotFoundError
  | FileExistsError
  | NotADirectoryError
  | PermissionError
  | AttributeError
  | OtherException string

datatype dtype = DT_INT64

datatype tensor =
    RandomNormal "int list" int
  | Variable tensor bool
  | ReadValue tensor
  | ConvertToTensor pyval
  | Constant pyval "string option"
  | TfAbs tensor
  | TfCast tensor dtype
  | AsString tensor
  | Reshape tensor "int list"
and pyval =
    PNone
  | PBool bool
  | PInt int
  | PFloat real
  | PStr string
  | PList "pyval list"
  | PDict "(pyval \<times> pyval) list"
  | PTensor tensor
  | PExportOutput export_output
  | PObject nat
and export_output =
    ClassificationOutput "tensor option" "tensor option"
  | RegressionOutput tensor
  | PredictOutput pyval

text \<open>
  The constructors, by the call they stand for:
  \<^item> \<open>Variable init trainable\<close>: \<^verbatim>\<open>tf.Variable(init, trainable=trainable)\<close>;
  \<^item> \<open>ReadValue v\<close>: \<^verbatim>\<open>v.read_value()\<close>;
  \<^item> \<open>ConvertToTensor x\<close>: \<^verbatim>\<open>tf.convert_to_tensor(x)\<close>;
  \<^item> \<open>Constant x name\<close>: \<^verbatim>\<open>tf.constant(x, name=name)\<close>;
  \<^item> \<open>TfAbs\<close>, \<open>TfCast\<close>, \<open>AsString\<close>: \<^verbatim>\<open>tf.abs\<close>, \<^verbatim>\<open>tf.cast\<close>, \<^verbatim>\<open>tf.as_string\<close>;
  \<^item> \<open>Reshape t shape\<close>: \<^verbatim>\<open>tf.reshape(t, shape)\<close>;
  \<^item> \<open>ClassificationOutput scores classes\<close>, \<open>RegressionOutput value\<close>,
    \<open>PredictOutput outputs\<close>: the classes of \<^verbatim>\<open>tf.estimator.export\<close>.
\<close>

text \<open>
  Operations of the graph: the one that \<^verbatim>\<open>tf.no_op()\<close> builds, and any other operation,
  by its name.
\<close>

datatype operation = NoOp | Operation string

datatype mode_keys = TRAIN | EVAL | PREDICT

subsection \<open>Static shapes\<close>

text \<open>
  Every node has a static shape. The shape of a Python value that is converted to a
  tensor is the one \<^verbatim>\<open>tensor_util._GetDenseDimensions\<close> computes: the lengths of the
  nested lists along their first elements, and the empty shape for a value that is not
  a list.
\<close>

fun static_shape :: "tensor \<Rightarrow> int list"
  and literal_shape :: "pyval \<Rightarrow> int list" where
  "static_shape (RandomNormal shape seed) = shape"
| "static_shape (Variable t trainable) = static_shape t"
| "static_shape (ReadValue t) = static_shape t"
| "static_shape (ConvertToTensor v) = literal_shape v"
| "static_shape (Constant v name) = literal_shape v"
| "static_shape (TfAbs t) = static_shape t"
| "static_shape (TfCast t d) = static_shape t"
| "static_shape (AsString t) = static_shape t"
| "static_shape (Reshape t shape) = shape"
| "literal_shape (PList []) = [0]"
| "literal_shape (PList (x # xs)) = (1 + int (length xs)) # literal_shape x"
| "literal_shape (PTensor t) = static_shape t"
| "literal_shape PNone = []"
| "literal_shape (PBool b) = []"
| "literal_shape (PInt i) = []"
| "literal_shape (PFloat x) = []"
| "literal_shape (PStr s) = []"
| "literal_shape (PDict d) = []"
| "literal_shape (PExportOutput e) = []"
| "literal_shape (PObject n) = []"

definition num_elements :: "tensor \<Rightarrow> int" where
  "num_elements t = prod_list (static_shape t)"

subsection \<open>\<^verbatim>\<open>tf.constant\<close>\<close>

text \<open>
  \<^verbatim>\<open>tf.constant(value, name=name)\<close> with no \<^verbatim>\<open>dtype\<close>, after
  \<^verbatim>\<open>tensor_util.make_tensor_proto\<close> of TensorFlow 1: \<^verbatim>\<open>None\<close> is refused with a
  \<^verbatim>\<open>ValueError\<close>, a tensor (alone or in a list) with a \<^verbatim>\<open>TypeError\<close>, nested lists that
  are not rectangular with a \<^verbatim>\<open>ValueError\<close>, and a value whose leaves are neither all
  numbers (Booleans, integers, floats) nor all strings with a \<^verbatim>\<open>TypeError\<close>. Any other
  value gives a constant node. Integers are taken within the range of the integer
  types of numpy.
\<close>

fun leaves :: "pyval \<Rightarrow> pyval list" where
  "leaves (PList xs) = concat (map leaves xs)"
| "leaves v = [v]"

fun dense :: "pyval \<Rightarrow> bool" where
  "dense (PList []) = True"
| "dense (PList (x # xs)) =
     (dense x \<and> list_all (\<lambda>y. dense y \<and> literal_shape y = literal_shape x) xs)"
| "dense v = True"

definition is_tensor :: "pyval \<Rightarrow> bool" where
  "is_tensor v = (case v of PTensor t \<Rightarrow> True | _ \<Rightarrow> False)"

definition is_number :: "pyval \<Rightarrow> bool" where
  "is_number v =
     (case v of PBool b \<Rightarrow> True | PInt i \<Rightarrow> True | PFloat x \<Rightarrow> True | _ \<Rightarrow> False)"

definition is_string :: "pyval \<Rightarrow> bool" where
  "is_string v = (case v of PStr s \<Rightarrow> True | _ \<Rightarrow> False)"

definition tf_constant :: "pyval \<Rightarrow> string option \<Rightarrow> error + tensor" where
  "tf_constant v name =
     (if v = PNone then Inl ValueError
      else if list_ex is_tensor (leaves v) then Inl TypeError
      else if \<not> dense v then Inl ValueError
      else if list_all is_number (leaves v) \<or> list_all is_string (leaves v)
        then Inr (Constant v name)
      else Inl TypeError)"

subsection \<open>\<^verbatim>\<open>dummy_tensor\<close>\<close>

definition dummy_tensor :: "int list \<Rightarrow> int \<Rightarrow> tensor" where
  "dummy_tensor shape random_seed =
     ReadValue (Variable (RandomNormal shape random_seed) False)"

text \<open>A value is a dummy tensor when it is the result of some call of \<open>dummy_tensor\<close>.\<close>

fun is_dummy_tensor :: "pyval \<Rightarrow> bool" where
  "is_dummy_tensor (PTensor (ReadValue (Variable (RandomNormal shape seed) trainable))) =
     (\<not> trainable)"
| "is_dummy_tensor _ = False"

subsection \<open>\<^verbatim>\<open>ExportOutputKeys\<close>\<close>

definition CLASSIFICATION_CLASSES :: string where
  "CLASSIFICATION_CLASSES = ''classification_classes''"

definition CLASSIFICATION_SCORES :: string where
  "CLASSIFICATION_SCORES = ''classification_scores''"

definition REGRESSION :: string where
  "REGRESSION = ''regression''"

definition PREDICTION :: string where
  "PREDICTION = ''prediction''"

definition INVALID :: string where
  "INVALID = ''invalid''"

definition ExportOutputKeys :: "string list" where
  "ExportOutputKeys =
     [CLASSIFICATION_CLASSES, CLASSIFICATION_SCORES, REGRESSION, PREDICTION, INVALID]"

text \<open>
  \<^verbatim>\<open>value == "literal"\<close> for a built-in value or an object with the default equality:
  true exactly when the value is a string with the same characters.
\<close>

definition py_eq_str :: "pyval \<Rightarrow> string \<Rightarrow> bool" where
  "py_eq_str v s = (case v of PStr t \<Rightarrow> t = s | _ \<Rightarrow> False)"

subsection \<open>The records of the ensemble\<close>

text \<open>
  Modelled from the spec: the classes \<^verbatim>\<open>Subnetwork\<close>, \<^verbatim>\<open>WeightedSubnetwork\<close>,
  \<^verbatim>\<open>ComplexityRegularized\<close>, \<^verbatim>\<open>_Architecture\<close> and \<^verbatim>\<open>_EnsembleSpec\<close> are declared in
  other modules of the repository (\<^verbatim>\<open>adanet.core.subnetwork\<close>, \<^verbatim>\<open>adanet.core.ensemble\<close>,
  \<^verbatim>\<open>adanet.core.architecture\<close>, \<^verbatim>\<open>adanet.core.ensemble_builder\<close>). The spec calls them
  transient value objects; each is a record of the keyword arguments the source
  passes to its constructor. Field names carry a prefix (\<open>sn_\<close>, \<open>ws_\<close>, \<open>cr_\<close>,
  \<open>es_\<close>), since several classes share field names.
\<close>

record subnetwork =
  sn_last_layer :: tensor
  sn_logits :: tensor
  sn_complexity :: real
  sn_persisted_tensors :: "(pyval \<times> pyval) list"

record weighted_subnetwork =
  ws_name :: string
  ws_iteration_number :: int
  ws_logits :: tensor
  ws_weight :: tensor
  ws_subnetwork :: subnetwork

record complexity_regularized =
  cr_weighted_subnetworks :: "weighted_subnetwork list"
  cr_bias :: tensor
  cr_logits :: tensor

datatype architecture = Architecture

record ensemble_spec =
  es_name :: string
  es_ensemble :: complexity_regularized
  es_architecture :: architecture
  es_subnetwork_builders :: pyval
  es_predictions :: pyval
  es_loss :: pyval
  es_adanet_loss :: tensor
  es_train_op :: pyval
  es_eval_metrics :: pyval
  es_export_outputs :: pyval

text \<open>
  The fields of a \<^verbatim>\<open>Subnetwork\<close>, and those of a \<^verbatim>\<open>WeightedSubnetwork\<close> with the fields
  of its nested \<^verbatim>\<open>Subnetwork\<close> in the place of the field \<open>subnetwork\<close>, as the Python
  values they hold.
\<close>

definition subnetwork_fields :: "subnetwork \<Rightarrow> pyval list" where
  "subnetwork_fields s =
     [PTensor (sn_last_layer s), PTensor (sn_logits s), PFloat (sn_complexity s),
      PDict (sn_persisted_tensors s)]"

definition weighted_subnetwork_fields :: "weighted_subnetwork \<Rightarrow> pyval list" where
  "weighted_subnetwork_fields w =
     [PStr (ws_name w), PInt (ws_iteration_number w), PTensor (ws_logits w),
      PTensor (ws_weight w)] @ subnetwork_fields (ws_subnetwork w)"

subsection \<open>\<^verbatim>\<open>_dummy_export_outputs\<close>\<close>

definition dummy_export_outputs :: "pyval \<Rightarrow> tensor \<Rightarrow> pyval \<Rightarrow> pyval" where
  "dummy_export_outputs export_output_key logits predictions =
     (if py_eq_str export_output_key CLASSIFICATION_CLASSES then
        PDict [(export_output_key,
                PExportOutput (ClassificationOutput None (Some (AsString logits))))]
      else if py_eq_str export_output_key CLASSIFICATION_SCORES then
        PDict [(export_output_key, PExportOutput (ClassificationOutput (Some logits) None))]
      else if py_eq_str export_output_key REGRESSION then
        PDict [(export_output_key, PExportOutput (RegressionOutput logits))]
      else if py_eq_str export_output_key PREDICTION then
        PDict [(export_output_key, PExportOutput (PredictOutput predictions))]
      else if py_eq_str export_output_key INVALID then
        PDict [(export_output_key, predictions)]
      else PNone)"

subsection \<open>\<^verbatim>\<open>dummy_ensemble_spec\<close>\<close>

text \<open>
  \<^verbatim>\<open>xs * n\<close> on a Python list: \<open>n\<close> copies of \<open>xs\<close> one after the other, and the empty
  list when \<open>n\<close> is zero or negative.
\<close>

definition list_mul :: "'a list \<Rightarrow> int \<Rightarrow> 'a list" where
  "list_mul xs n = concat (replicate (nat n) xs)"

text \<open>
  The local list \<^verbatim>\<open>weighted_subnetworks\<close> of \<^verbatim>\<open>dummy_ensemble_spec\<close> (lines 101 to 112
  of the source): one \<^verbatim>\<open>WeightedSubnetwork\<close>, which depends on \<open>name\<close> and
  \<open>random_seed\<close> only.
\<close>

definition weighted_subnetworks :: "string \<Rightarrow> int \<Rightarrow> weighted_subnetwork list" where
  "weighted_subnetworks name random_seed =
     [\<lparr>ws_name = name,
       ws_iteration_number = 1,
       ws_logits = dummy_tensor [2, 1] (random_seed * 4),
       ws_weight = dummy_tensor [2, 1] (random_seed * 4),
       ws_subnetwork =
         \<lparr>sn_last_layer = dummy_tensor [1, 2] (random_seed * 4),
          sn_logits = dummy_tensor [2, 1] (random_seed * 4),
          sn_complexity = 1,
          sn_persisted_tensors = []\<rparr>\<rparr>]"

text \<open>
  The parameters are typed as the docstring describes them: a name, an integer seed, an
  integer number of subnetworks, a float bias, a Boolean \<open>dict_predictions\<close>. The
  parameters the source only tests against \<^verbatim>\<open>None\<close>, compares or passes on (\<open>loss\<close>,
  \<open>adanet_loss\<close>, \<open>eval_metrics\<close>, \<open>export_output_key\<close>, \<open>subnetwork_builders\<close>,
  \<open>train_op\<close>) range over all Python values.
\<close>

definition dummy_ensemble_spec ::
  "string \<Rightarrow> int \<Rightarrow> int \<Rightarrow> real \<Rightarrow> pyval \<Rightarrow> pyval \<Rightarrow> pyval \<Rightarrow> bool \<Rightarrow> pyval \<Rightarrow> pyval \<Rightarrow> pyval
     \<Rightarrow> ensemble_spec" where
  "dummy_ensemble_spec name random_seed num_subnetworks bias loss adanet_loss eval_metrics
       dict_predictions export_output_key subnetwork_builders train_op =
     (let loss1 = (if loss = PNone then PTensor (dummy_tensor [] random_seed) else loss);
          adanet_loss1 =
            (if adanet_loss = PNone then dummy_tensor [] (random_seed * 2)
             else ConvertToTensor adanet_loss);
          logits = dummy_tensor [] (random_seed * 3);
          predictions =
            (if dict_predictions then
               PDict [(PStr ''logits'', PTensor logits),
                      (PStr ''classes'', PTensor (TfCast (TfAbs logits) DT_INT64))]
             else PTensor logits);
          export_outputs = dummy_export_outputs export_output_key logits predictions;
          bias1 = Constant (PFloat bias) None
      in \<lparr>es_name = name,
          es_ensemble =
            \<lparr>cr_weighted_subnetworks =
               list_mul (weighted_subnetworks name random_seed) num_subnetworks,
             cr_bias = bias1,
             cr_logits = logits\<rparr>,
          es_architecture = Architecture,
          es_subnetwork_builders = subnetwork_builders,
          es_predictions = predictions,
          es_loss = loss1,
          es_adanet_loss = adanet_loss1,
          es_train_op = train_op,
          es_eval_metrics = eval_metrics,
          es_export_outputs = export_outputs\<rparr>)"

subsection \<open>\<^verbatim>\<open>dummy_estimator_spec\<close>\<close>

text \<open>
  \<^verbatim>\<open>tf.estimator.EstimatorSpec\<close> is a class of TensorFlow whose constructor validates its
  arguments. The record has the fields the source sets. \<open>eval_metric_ops\<close> is typed as
  the docstring has it, an optional dictionary of metric ops: pairs of a value tensor
  and an update tensor under their names, which the constructor accepts; the loss is
  any Python value.

  The constructor, for the keyword arguments of the source: a loss that is \<^verbatim>\<open>None\<close> is
  missing in the modes \<open>TRAIN\<close> and \<open>EVAL\<close> (\<^verbatim>\<open>ValueError\<close>); a loss that is not a tensor
  is a \<^verbatim>\<open>TypeError\<close>; a tensor of more or fewer than one element is a \<^verbatim>\<open>ValueError\<close>; a
  tensor of one element that is not a scalar is reshaped to a scalar; and
  \<open>eval_metric_ops\<close> that is \<^verbatim>\<open>None\<close> becomes the empty dictionary.
\<close>

type_synonym metric_ops = "(string \<times> tensor \<times> tensor) list"

record estimator_spec =
  est_mode :: mode_keys
  est_predictions :: tensor
  est_loss :: pyval
  est_train_op :: operation
  est_eval_metric_ops :: metric_ops

definition check_loss :: "mode_keys \<Rightarrow> pyval \<Rightarrow> error + pyval" where
  "check_loss mode loss =
     (case loss of
        PNone \<Rightarrow> (if mode = TRAIN \<or> mode = EVAL then Inl ValueError else Inr PNone)
      | PTensor t \<Rightarrow>
          (if num_elements t \<noteq> 1 then Inl ValueError
           else if static_shape t \<noteq> [] then Inr (PTensor (Reshape t []))
           else Inr (PTensor t))
      | _ \<Rightarrow> Inl TypeError)"

definition EstimatorSpec ::
  "mode_keys \<Rightarrow> tensor \<Rightarrow> pyval \<Rightarrow> operation \<Rightarrow> metric_ops option
     \<Rightarrow> error + estimator_spec" where
  "EstimatorSpec mode predictions loss train_op eval_metric_ops =
     (case check_loss mode loss of
        Inl e \<Rightarrow> Inl e
      | Inr loss1 \<Rightarrow>
          Inr \<lparr>est_mode = mode,
               est_predictions = predictions,
               est_loss = loss1,
               est_train_op = train_op,
               est_eval_metric_ops =
                 (case eval_metric_ops of None \<Rightarrow> [] | Some ops \<Rightarrow> ops)\<rparr>)"

definition dummy_estimator_spec ::
  "pyval \<Rightarrow> int \<Rightarrow> metric_ops option \<Rightarrow> error + estimator_spec" where
  "dummy_estimator_spec loss random_seed eval_metric_ops =
     (let loss1 = (if loss = PNone then PTensor (dummy_tensor [] random_seed) else loss);
          predictions = dummy_tensor [] (random_seed * 2)
      in EstimatorSpec TRAIN predictions loss1 NoOp eval_metric_ops)"

subsection \<open>\<^verbatim>\<open>dummy_input_fn\<close>\<close>

text \<open>
  \<^verbatim>\<open>dummy_input_fn\<close> returns the closure \<^verbatim>\<open>_input_fn\<close>, a function of \<open>params\<close> that
  deletes its argument, converts the features and then the labels with \<^verbatim>\<open>tf.constant\<close>
  and returns the pair. Building the closure calls nothing; an exception of
  \<^verbatim>\<open>tf.constant\<close> is raised when the closure is called.
\<close>

definition dummy_input_fn :: "pyval \<Rightarrow> pyval \<Rightarrow> (pyval \<Rightarrow> error + pyval \<times> tensor)" where
  "dummy_input_fn features labels =
     (\<lambda>params.
        (case tf_constant features (Some ''x'') of
           Inl e \<Rightarrow> Inl e
         | Inr x \<Rightarrow>
             (let input_features = PDict [(PStr ''x'', PTensor x)]
              in case tf_constant labels (Some ''y'') of
                   Inl e \<Rightarrow> Inl e
                 | Inr input_labels \<Rightarrow> Inr (input_features, input_labels))))"

section \<open>The test directory of \<^verbatim>\<open>AdanetTestCase\<close>\<close>

text \<open>
  \<^verbatim>\<open>setUp\<close> and \<^verbatim>\<open>tearDown\<close> act on the file system through \<^verbatim>\<open>os.path.join\<close>,
  \<^verbatim>\<open>shutil.rmtree\<close> and \<^verbatim>\<open>os.makedirs\<close> of the Python standard library. The file
  system is a map from path names to entries, passed in and returned; a call returns
  the exception it raises (\<open>Inl\<close>) or its value (\<open>Inr\<close>), together with the file system
  it leaves. Path names are taken as normalised POSIX names (no repeated or trailing
  slash, no symbolic link).
\<close>

datatype entry = Directory | RegularFile

type_synonym filesystem = "string \<Rightarrow> entry option"

text \<open>
  \<^verbatim>\<open>os.path.join(a, b)\<close> of \<^verbatim>\<open>posixpath\<close>: an absolute \<open>b\<close> replaces \<open>a\<close>; otherwise \<open>b\<close> is
  appended, after a slash unless \<open>a\<close> is empty or ends with one.
\<close>

definition startswith_sep :: "string \<Rightarrow> bool" where
  "startswith_sep b = (case b of [] \<Rightarrow> False | c # cs \<Rightarrow> c = CHR ''/'')"

definition os_path_join :: "string \<Rightarrow> string \<Rightarrow> string" where
  "os_path_join a b =
     (if startswith_sep b then b
      else if a = [] \<or> last a = CHR ''/'' then a @ b
      else a @ ''/'' @ b)"

text \<open>
  The directories a path lies in: its non-empty prefixes that end just before a slash,
  shortest first. \<open>ancestors_from pre cs\<close> walks the rest \<open>cs\<close> of a path whose part
  read so far is \<open>pre\<close>.
\<close>

fun ancestors_from :: "string \<Rightarrow> string \<Rightarrow> string list" where
  "ancestors_from pre [] = []"
| "ancestors_from pre (c # cs) =
     (if c = CHR ''/'' \<and> pre \<noteq> [] then [pre] else []) @ ancestors_from (pre @ [c]) cs"

definition ancestors :: "string \<Rightarrow> string list" where
  "ancestors path = ancestors_from [] path"

text \<open>
  The operating system may refuse to remove an entry (one that lies in a read-only
  directory, for one). \<open>undeletable\<close> lists the paths it refuses. An entry cannot be
  removed when it is one of them or has one of them below it, since a directory is
  removed after its contents.
\<close>

definition blocked :: "string list \<Rightarrow> filesystem \<Rightarrow> string \<Rightarrow> bool" where
  "blocked undeletable fs q =
     list_ex (\<lambda>u. fs u \<noteq> None \<and> (u = q \<or> q \<in> set (ancestors u))) undeletable"

text \<open>
  \<^verbatim>\<open>shutil.rmtree(path, ignore_errors)\<close> deletes the directory \<open>path\<close> with all it
  contains, but for the entries that cannot be removed. A path that does not exist
  (\<^verbatim>\<open>FileNotFoundError\<close>, or \<^verbatim>\<open>NotADirectoryError\<close> when a path above it is a file) or is
  not a directory is an error, and nothing is deleted; an entry that cannot be removed
  is an error too. Errors are raised unless \<open>ignore_errors\<close> is set. With
  \<open>ignore_errors\<close> unset Python stops at the first entry it cannot remove, in the order
  of the directory listings, which the model does not have: the model removes all it
  can before it reports the error. The source never makes that call.
\<close>

definition rmtree ::
  "string list \<Rightarrow> string \<Rightarrow> bool \<Rightarrow> filesystem \<Rightarrow> (error + unit) \<times> filesystem" where
  "rmtree undeletable path ignore_errors fs =
     (case fs path of
        Some Directory \<Rightarrow>
          (if blocked undeletable fs path \<and> \<not> ignore_errors then Inl PermissionError
           else Inr (),
           (\<lambda>q. if (q = path \<or> path \<in> set (ancestors q)) \<and> \<not> blocked undeletable fs q
                 then None else fs q))
      | Some RegularFile \<Rightarrow>
          (if ignore_errors then Inr () else Inl NotADirectoryError, fs)
      | None \<Rightarrow>
          (if ignore_errors then Inr ()
           else if list_ex (\<lambda>a. fs a = Some RegularFile) (ancestors path)
             then Inl NotADirectoryError
           else Inl FileNotFoundError,
           fs))"

text \<open>
  \<^verbatim>\<open>os.makedirs(name)\<close> creates the directory \<open>name\<close> and the directories above it that
  are missing. It raises when \<open>name\<close> exists already (\<^verbatim>\<open>exist_ok\<close> is not set) and when
  a path above it is a file.
\<close>

definition makedirs :: "string \<Rightarrow> filesystem \<Rightarrow> (error + unit) \<times> filesystem" where
  "makedirs name fs =
     (if fs name \<noteq> None then (Inl FileExistsError, fs)
      else if list_ex (\<lambda>a. fs a = Some RegularFile) (ancestors name)
        then (Inl NotADirectoryError, fs)
      else (Inr (),
            (\<lambda>q. if (q = name \<or> q \<in> set (ancestors name)) \<and> fs q = None
                  then Some Directory else fs q)))"

text \<open>
  The state a test method runs in: the file system and the attribute
  \<^verbatim>\<open>self.test_subdirectory\<close>, which is unset before \<^verbatim>\<open>setUp\<close> assigns it.
\<close>

record world =
  files :: filesystem
  test_subdirectory :: "string option"

text \<open>
  What a test case is given: the flag \<^verbatim>\<open>FLAGS.test_tmpdir\<close>, its own \<^verbatim>\<open>self.id()\<close>, the
  paths the operating system refuses to remove, and the \<^verbatim>\<open>setUp\<close> and \<^verbatim>\<open>tearDown\<close> of
  its parent classes (\<^verbatim>\<open>parameterized.TestCase\<close>, \<^verbatim>\<open>tf.test.TestCase\<close>), which are
  outside this repository and may do anything to the file system, or raise.
\<close>

record test_env =
  test_tmpdir :: string
  test_id :: string
  undeletable :: "string list"
  super_setUp :: "filesystem \<Rightarrow> (error + unit) \<times> filesystem"
  super_tearDown :: "filesystem \<Rightarrow> (error + unit) \<times> filesystem"

definition setUp :: "test_env \<Rightarrow> world \<Rightarrow> (error + unit) \<times> world" where
  "setUp env w =
     (case super_setUp env (files w) of
        (Inl e, fs1) \<Rightarrow> (Inl e, w\<lparr>files := fs1\<rparr>)
      | (Inr u, fs1) \<Rightarrow>
          (let dir = os_path_join (test_tmpdir env) (test_id env);
               w1 = w\<lparr>files := fs1, test_subdirectory := Some dir\<rparr>
           in case rmtree (undeletable env) dir True fs1 of
                (Inl e, fs2) \<Rightarrow> (Inl e, w1\<lparr>files := fs2\<rparr>)
              | (Inr u, fs2) \<Rightarrow>
                  (case makedirs dir fs2 of (r, fs3) \<Rightarrow> (r, w1\<lparr>files := fs3\<rparr>))))"

definition tearDown :: "test_env \<Rightarrow> world \<Rightarrow> (error + unit) \<times> world" where
  "tearDown env w =
     (case super_tearDown env (files w) of
        (Inl e, fs1) \<Rightarrow> (Inl e, w\<lparr>files := fs1\<rparr>)
      | (Inr u, fs1) \<Rightarrow>
          (case test_subdirectory w of
             None \<Rightarrow> (Inl AttributeError, w\<lparr>files := fs1\<rparr>)
           | Some dir \<Rightarrow>
               (case rmtree (undeletable env) dir True fs1 of (r, fs2) \<Rightarrow> (r, w\<lparr>files := fs2\<rparr>))))"


subsection \<open>Example runs\<close>

text \<open>
  Concrete inputs for evaluating the model: parent methods that return without touching
  the file system or that raise, a test method that passes, an operating system that
  removes everything or refuses to remove the file \<^verbatim>\<open>/tmp/t/old\<close>, and three states of
  the file system under \<^verbatim>\<open>/tmp\<close> for the test with id \<^verbatim>\<open>t\<close>: nothing at \<^verbatim>\<open>/tmp/t\<close>, a
  directory with a file left by an earlier run, and a regular file.
\<close>

definition returns :: "filesystem \<Rightarrow> (error + unit) \<times> filesystem" where
  "returns fs = (Inr (), fs)"



definition example_env :: test_env where
  "example_env =
     \<lparr>test_tmpdir = ''/tmp'', test_id = ''t'', undeletable = [],
      super_setUp = returns, super_tearDown = returns\<rparr>"



definition clean_world :: world where
  "clean_world =
     \<lparr>files = map_of [(''/tmp'', Directory)], test_subdirectory = None\<rparr>"



section \<open>Export outputs\<close>

lemma py_eq_str_iff: "py_eq_str v s \<longleftrightarrow> v = PStr s"
  by (cases v) (auto simp: py_eq_str_def)

lemmas key_defs = INVALID_def CLASSIFICATION_CLASSES_def CLASSIFICATION_SCORES_def
  REGRESSION_def PREDICTION_def

text \<open>
  Claim C1. For every name, logits and predictions, the key \<^verbatim>\<open>"invalid"\<close> makes
  \<^verbatim>\<open>_dummy_export_outputs\<close> return the dictionary that maps \<^verbatim>\<open>"invalid"\<close> to the raw
  predictions, which is not an export-output object, and \<^verbatim>\<open>dummy_ensemble_spec\<close>
  returns a spec whose \<open>export_outputs\<close> is that dictionary over the spec's own
  predictions. No branch of the model raises.
\<close>

theorem invalid_key_gives_stub:
  "dummy_export_outputs (PStr INVALID) logits predictions
     = PDict [(PStr ''invalid'', predictions)]
   \<and> es_export_outputs
       (dummy_ensemble_spec name random_seed num_subnetworks bias loss adanet_loss
          eval_metrics dict_predictions (PStr INVALID) subnetwork_builders train_op)
     = PDict [(PStr ''invalid'',
         es_predictions
           (dummy_ensemble_spec name random_seed num_subnetworks bias loss adanet_loss
              eval_metrics dict_predictions (PStr INVALID) subnetwork_builders train_op))]
   \<and> (\<forall>e. es_predictions
           (dummy_ensemble_spec name random_seed num_subnetworks bias loss adanet_loss
              eval_metrics dict_predictions (PStr INVALID) subnetwork_builders train_op)
         \<noteq> PExportOutput e)"
  by (simp add: dummy_export_outputs_def dummy_ensemble_spec_def py_eq_str_iff Let_def
      key_defs)

text \<open>
  Claim C9. A key that is \<^verbatim>\<open>None\<close>, or that is none of the five strings of
  \<^verbatim>\<open>ExportOutputKeys\<close>, makes \<^verbatim>\<open>_dummy_export_outputs\<close> return \<^verbatim>\<open>None\<close>, and the spec
  that \<^verbatim>\<open>dummy_ensemble_spec\<close> returns has \<open>export_outputs\<close> equal to \<^verbatim>\<open>None\<close>.
\<close>

theorem unrecognized_key_gives_none:
  assumes "export_output_key = PNone \<or> export_output_key \<notin> PStr ` set ExportOutputKeys"
  shows "dummy_export_outputs export_output_key logits predictions = PNone
       \<and> es_export_outputs
           (dummy_ensemble_spec name random_seed num_subnetworks bias loss adanet_loss
              eval_metrics dict_predictions export_output_key subnetwork_builders train_op)
         = PNone"
  using assms
  by (auto simp add: dummy_export_outputs_def dummy_ensemble_spec_def Let_def
      py_eq_str_iff ExportOutputKeys_def)

theorem unrecognized_key_gives_none_witness:
  "PStr ''bogus'' \<notin> PStr ` set ExportOutputKeys
   \<and> dummy_export_outputs (PStr ''bogus'') (dummy_tensor [] 126) PNone = PNone
   \<and> dummy_export_outputs PNone (dummy_tensor [] 126) PNone = PNone
   \<and> es_export_outputs
        (dummy_ensemble_spec ''e'' 42 1 0 PNone PNone PNone False (PInt 7) PNone PNone)
      = PNone"
  using unrecognized_key_gives_none [of "PStr ''bogus''" "dummy_tensor [] 126" PNone]
    unrecognized_key_gives_none [of PNone "dummy_tensor [] 126" PNone]
    unrecognized_key_gives_none [of "PInt 7" _ _ "''e''" 42 1 0 PNone PNone PNone False PNone PNone]
  by (auto simp add: ExportOutputKeys_def key_defs)

section \<open>Defaulted arguments\<close>

text \<open>
  \<^verbatim>\<open>tf.constant(bias)\<close> in \<^verbatim>\<open>dummy_ensemble_spec\<close> is a call on a float, which
  \<^verbatim>\<open>tf.constant\<close> accepts: the node \<open>Constant (PFloat bias) None\<close> stands for its result.
\<close>

lemma tf_constant_float: "tf_constant (PFloat bias) name = Inr (Constant (PFloat bias) name)"
  by (simp add: tf_constant_def is_tensor_def is_number_def)

lemma dummy_tensor_scalar:
  "static_shape (dummy_tensor [] seed) = []" "num_elements (dummy_tensor [] seed) = 1"
  by (simp_all add: dummy_tensor_def num_elements_def)

lemma dummy_estimator_spec_tensor:
  "dummy_estimator_spec (PTensor t) random_seed eval_metric_ops =
     (if num_elements t \<noteq> 1 then Inl ValueError
      else Inr \<lparr>est_mode = TRAIN,
                est_predictions = dummy_tensor [] (random_seed * 2),
                est_loss = (if static_shape t \<noteq> [] then PTensor (Reshape t []) else PTensor t),
                est_train_op = NoOp,
                est_eval_metric_ops = (case eval_metric_ops of None \<Rightarrow> [] | Some ops \<Rightarrow> ops)\<rparr>)"
  by (simp add: dummy_estimator_spec_def EstimatorSpec_def check_loss_def Let_def)

lemma dummy_estimator_spec_none:
  "dummy_estimator_spec PNone random_seed eval_metric_ops =
     Inr \<lparr>est_mode = TRAIN,
          est_predictions = dummy_tensor [] (random_seed * 2),
          est_loss = PTensor (dummy_tensor [] random_seed),
          est_train_op = NoOp,
          est_eval_metric_ops = (case eval_metric_ops of None \<Rightarrow> [] | Some ops \<Rightarrow> ops)\<rparr>"
  by (simp add: dummy_estimator_spec_def EstimatorSpec_def check_loss_def Let_def
      dummy_tensor_scalar)


text \<open>
  Claim C2, as stated: in \<^verbatim>\<open>dummy_estimator_spec\<close> too, a loss that is not \<^verbatim>\<open>None\<close> is the
  loss of the returned spec, unchanged. It fails for the float 3.0, where the constructor
  of \<^verbatim>\<open>EstimatorSpec\<close> raises \<^verbatim>\<open>TypeError\<close> and no spec is returned, and for the tensor
  \<^verbatim>\<open>tf.random_normal([1], seed=5)\<close>, which the constructor reshapes.
\<close>

theorem estimator_loss_not_unchanged:
  "dummy_estimator_spec (PFloat 3) 42 None = Inl TypeError
   \<and> dummy_estimator_spec (PTensor (RandomNormal [1] 5)) 42 None
     = Inr \<lparr>est_mode = TRAIN,
            est_predictions = ReadValue (Variable (RandomNormal [] 84) False),
            est_loss = PTensor (Reshape (RandomNormal [1] 5) []),
            est_train_op = NoOp,
            est_eval_metric_ops = []\<rparr>"
  by (simp add: dummy_estimator_spec_def EstimatorSpec_def check_loss_def Let_def
      num_elements_def dummy_tensor_def)

text \<open>
  Claim C2, amended. In \<^verbatim>\<open>dummy_ensemble_spec\<close> and in \<^verbatim>\<open>dummy_estimator_spec\<close>, a \<open>loss\<close>
  that is \<^verbatim>\<open>None\<close> is replaced by the random scalar tensor
  \<^verbatim>\<open>tf.Variable(tf.random_normal(shape=[], seed=random_seed), trainable=False).read_value()\<close>.
  A \<open>loss\<close> that is not \<^verbatim>\<open>None\<close> is the loss of the spec of \<^verbatim>\<open>dummy_ensemble_spec\<close>,
  unchanged. In \<^verbatim>\<open>dummy_estimator_spec\<close> a loss that is a scalar tensor is the loss of
  the returned spec, unchanged, and a tensor of one element that is not a scalar is
  reshaped to a scalar.
\<close>

theorem loss_defaulted:
  "(loss = PNone \<longrightarrow>
      es_loss (dummy_ensemble_spec name random_seed num_subnetworks bias loss adanet_loss
         eval_metrics dict_predictions export_output_key subnetwork_builders train_op)
        = PTensor (ReadValue (Variable (RandomNormal [] random_seed) False))
      \<and> (\<exists>spec. dummy_estimator_spec loss random_seed eval_metric_ops = Inr spec
            \<and> est_loss spec = PTensor (ReadValue (Variable (RandomNormal [] random_seed) False))))
   \<and> (loss \<noteq> PNone \<longrightarrow>
      es_loss (dummy_ensemble_spec name random_seed num_subnetworks bias loss adanet_loss
         eval_metrics dict_predictions export_output_key subnetwork_builders train_op)
        = loss)
   \<and> (loss = PTensor t \<and> static_shape t = [] \<longrightarrow>
      (\<exists>spec. dummy_estimator_spec loss random_seed eval_metric_ops = Inr spec
         \<and> est_loss spec = loss))
   \<and> (loss = PTensor t \<and> num_elements t = 1 \<and> static_shape t \<noteq> [] \<longrightarrow>
      (\<exists>spec. dummy_estimator_spec loss random_seed eval_metric_ops = Inr spec
         \<and> est_loss spec = PTensor (Reshape t [])))"
proof (intro conjI impI)
  assume "loss = PNone"
  then show "es_loss (dummy_ensemble_spec name random_seed num_subnetworks bias loss
      adanet_loss eval_metrics dict_predictions export_output_key subnetwork_builders train_op)
    = PTensor (ReadValue (Variable (RandomNormal [] random_seed) False))"
    by (simp add: dummy_ensemble_spec_def Let_def dummy_tensor_def)
next
  assume "loss = PNone"
  then show "\<exists>spec. dummy_estimator_spec loss random_seed eval_metric_ops = Inr spec
      \<and> est_loss spec = PTensor (ReadValue (Variable (RandomNormal [] random_seed) False))"
    by (simp add: dummy_estimator_spec_none dummy_tensor_def)
next
  assume "loss \<noteq> PNone"
  then show "es_loss (dummy_ensemble_spec name random_seed num_subnetworks bias loss
      adanet_loss eval_metrics dict_predictions export_output_key subnetwork_builders train_op)
    = loss"
    by (simp add: dummy_ensemble_spec_def Let_def)
next
  assume "loss = PTensor t \<and> static_shape t = []"
  then show "\<exists>spec. dummy_estimator_spec loss random_seed eval_metric_ops = Inr spec
      \<and> est_loss spec = loss"
    by (simp add: dummy_estimator_spec_tensor num_elements_def)
next
  assume "loss = PTensor t \<and> num_elements t = 1 \<and> static_shape t \<noteq> []"
  then show "\<exists>spec. dummy_estimator_spec loss random_seed eval_metric_ops = Inr spec
      \<and> est_loss spec = PTensor (Reshape t [])"
    by (simp add: dummy_estimator_spec_tensor)
qed

theorem loss_defaulted_witness:
  "es_loss (dummy_ensemble_spec ''e'' 7 1 0 PNone PNone PNone False PNone PNone PNone)
     = PTensor (ReadValue (Variable (RandomNormal [] 7) False))
   \<and> map_sum id est_loss (dummy_estimator_spec PNone 7 None)
     = Inr (PTensor (ReadValue (Variable (RandomNormal [] 7) False)))
   \<and> es_loss (dummy_ensemble_spec ''e'' 7 1 0 (PFloat 3) PNone PNone False PNone PNone PNone)
     = PFloat 3
   \<and> static_shape (Constant (PFloat 3) None) = []
   \<and> map_sum id est_loss (dummy_estimator_spec (PTensor (Constant (PFloat 3) None)) 7 None)
     = Inr (PTensor (Constant (PFloat 3) None))
   \<and> num_elements (RandomNormal [1] 5) = 1
   \<and> static_shape (RandomNormal [1] 5) \<noteq> []
   \<and> map_sum id est_loss (dummy_estimator_spec (PTensor (RandomNormal [1] 5)) 7 None)
     = Inr (PTensor (Reshape (RandomNormal [1] 5) []))"
  using loss_defaulted [of PNone "''e''" 7 1 0 PNone PNone False PNone PNone PNone None]
    loss_defaulted [of "PFloat 3" "''e''" 7 1 0 PNone PNone False PNone PNone PNone]
    loss_defaulted [of "PTensor (Constant (PFloat 3) None)" "''e''" 7 1 0 PNone PNone False
      PNone PNone PNone None "Constant (PFloat 3) None"]
    loss_defaulted [of "PTensor (RandomNormal [1] 5)" "''e''" 7 1 0 PNone PNone False
      PNone PNone PNone None "RandomNormal [1] 5"]
  by (auto simp add: num_elements_def)




section \<open>Input functions\<close>

text \<open>
  Claim C5, as stated: for every features and labels the closure returns the pair. It
  fails when the features or the labels are \<^verbatim>\<open>None\<close>: \<^verbatim>\<open>tf.constant\<close> raises
  \<^verbatim>\<open>ValueError\<close>.
\<close>

theorem dummy_input_fn_rejects_none:
  "dummy_input_fn PNone (PList [PList [PFloat 1]]) PNone = Inl ValueError
   \<and> dummy_input_fn (PList [PList [PFloat 1, PFloat 0]]) PNone PNone = Inl ValueError"
  by (simp add: dummy_input_fn_def tf_constant_def is_tensor_def is_number_def)

lemma tf_constant_result: "tf_constant v name = Inr t \<Longrightarrow> t = Constant v name"
  by (auto simp add: tf_constant_def split: if_splits)

lemma tf_constant_name: "isl (tf_constant v name) = isl (tf_constant v name')"
  by (simp add: tf_constant_def)

text \<open>
  Claim C5, amended. For all features and labels that \<^verbatim>\<open>tf.constant\<close> accepts, the
  function \<^verbatim>\<open>dummy_input_fn(features, labels)\<close> returns, whatever its argument \<open>params\<close>,
  the pair of the dictionary \<^verbatim>\<open>{"x": tf.constant(features, name="x")}\<close> and
  \<^verbatim>\<open>tf.constant(labels, name="y")\<close>; and on all features and labels its result is the
  same for every \<open>params\<close>.
\<close>

theorem dummy_input_fn_returns:
  "(\<not> isl (tf_constant features (Some ''x'')) \<and> \<not> isl (tf_constant labels (Some ''y'')) \<longrightarrow>
      dummy_input_fn features labels params
        = Inr (PDict [(PStr ''x'', PTensor (Constant features (Some ''x'')))],
               Constant labels (Some ''y'')))
   \<and> dummy_input_fn features labels params = dummy_input_fn features labels PNone"
proof (intro conjI impI)
  assume "\<not> isl (tf_constant features (Some ''x'')) \<and> \<not> isl (tf_constant labels (Some ''y''))"
  then obtain x y where x: "tf_constant features (Some ''x'') = Inr x"
    and y: "tf_constant labels (Some ''y'') = Inr y"
    by (metis sum.collapse(2))
  from tf_constant_result [OF x] tf_constant_result [OF y] x y
  show "dummy_input_fn features labels params
      = Inr (PDict [(PStr ''x'', PTensor (Constant features (Some ''x'')))],
             Constant labels (Some ''y''))"
    by (simp add: dummy_input_fn_def)
next
  show "dummy_input_fn features labels params = dummy_input_fn features labels PNone"
    by (simp add: dummy_input_fn_def)
qed

theorem dummy_input_fn_returns_witness:
  "tf_constant (PList [PList [PFloat 1, PFloat 0]]) (Some ''x'')
     = Inr (Constant (PList [PList [PFloat 1, PFloat 0]]) (Some ''x''))
   \<and> tf_constant (PList [PList [PFloat 1]]) (Some ''y'')
     = Inr (Constant (PList [PList [PFloat 1]]) (Some ''y''))
   \<and> dummy_input_fn (PList [PList [PFloat 1, PFloat 0]]) (PList [PList [PFloat 1]]) (PInt 3)
     = Inr (PDict [(PStr ''x'',
                   PTensor (Constant (PList [PList [PFloat 1, PFloat 0]]) (Some ''x'')))],
            Constant (PList [PList [PFloat 1]]) (Some ''y''))"
proof -
  have x: "tf_constant (PList [PList [PFloat 1, PFloat 0]]) (Some ''x'')
      = Inr (Constant (PList [PList [PFloat 1, PFloat 0]]) (Some ''x''))"
    by (simp add: tf_constant_def is_tensor_def is_number_def)
  have y: "tf_constant (PList [PList [PFloat 1]]) (Some ''y'')
      = Inr (Constant (PList [PList [PFloat 1]]) (Some ''y''))"
    by (simp add: tf_constant_def is_tensor_def is_number_def)
  from x y dummy_input_fn_returns
    [of "PList [PList [PFloat 1, PFloat 0]]" "PList [PList [PFloat 1]]" "PInt 3"]
  show ?thesis by simp
qed


section \<open>Weighted subnetworks\<close>

text \<open>
  Claim C6, as stated: every field of the \<^verbatim>\<open>WeightedSubnetwork\<close> and of its nested
  \<^verbatim>\<open>Subnetwork\<close> is a randomly initialised tensor. It fails for the record in the spec
  of \<^verbatim>\<open>dummy_ensemble_spec("e")\<close>, with the default seed 42: the name, the iteration
  number, the complexity and the persisted tensors are not tensors.
\<close>

theorem weighted_subnetwork_not_all_random:
  "cr_weighted_subnetworks (es_ensemble
      (dummy_ensemble_spec ''e'' 42 1 0 PNone PNone PNone False PNone PNone PNone))
     = weighted_subnetworks ''e'' 42
   \<and> \<not> list_all is_dummy_tensor
       (weighted_subnetwork_fields (hd (weighted_subnetworks ''e'' 42)))
   \<and> \<not> is_dummy_tensor (PFloat (sn_complexity (ws_subnetwork
       (hd (weighted_subnetworks ''e'' 42)))))"
  by (simp add: dummy_ensemble_spec_def Let_def list_mul_def weighted_subnetworks_def
      weighted_subnetwork_fields_def subnetwork_fields_def dummy_tensor_def)

text \<open>
  Claim C6, amended. The record has the fields \<open>name\<close>, 1, four dummy tensors seeded
  with \<open>random_seed * 4\<close> (\<open>logits\<close> and \<open>weight\<close> of shape \<open>[2, 1]\<close>, and in the nested
  \<^verbatim>\<open>Subnetwork\<close> \<open>last_layer\<close> of shape \<open>[1, 2]\<close> and \<open>logits\<close> of shape \<open>[2, 1]\<close>), the
  complexity 1.0 and an empty dictionary of persisted tensors; the dummy tensors among
  its fields are exactly those four. The ensemble of the returned spec holds
  \<open>num_subnetworks\<close> copies of this record. Each of the four tensors is
  \<^verbatim>\<open>tf.Variable(tf.random_normal(shape, seed=random_seed * 4), trainable=False).read_value()\<close>
  for its shape.
\<close>

theorem weighted_subnetwork_fields_by_design:
  "map weighted_subnetwork_fields (weighted_subnetworks name random_seed)
     = [[PStr name, PInt 1,
         PTensor (dummy_tensor [2, 1] (random_seed * 4)),
         PTensor (dummy_tensor [2, 1] (random_seed * 4)),
         PTensor (dummy_tensor [1, 2] (random_seed * 4)),
         PTensor (dummy_tensor [2, 1] (random_seed * 4)),
         PFloat 1, PDict []]]
   \<and> map (filter is_dummy_tensor \<circ> weighted_subnetwork_fields)
         (weighted_subnetworks name random_seed)
     = [[PTensor (dummy_tensor [2, 1] (random_seed * 4)),
         PTensor (dummy_tensor [2, 1] (random_seed * 4)),
         PTensor (dummy_tensor [1, 2] (random_seed * 4)),
         PTensor (dummy_tensor [2, 1] (random_seed * 4))]]
   \<and> cr_weighted_subnetworks (es_ensemble
         (dummy_ensemble_spec name random_seed num_subnetworks bias loss adanet_loss
            eval_metrics dict_predictions export_output_key subnetwork_builders train_op))
     = list_mul (weighted_subnetworks name random_seed) num_subnetworks
   \<and> map (\<lambda>w. [ws_logits w, ws_weight w, sn_last_layer (ws_subnetwork w),
                 sn_logits (ws_subnetwork w)])
         (weighted_subnetworks name random_seed)
     = [[ReadValue (Variable (RandomNormal [2, 1] (random_seed * 4)) False),
         ReadValue (Variable (RandomNormal [2, 1] (random_seed * 4)) False),
         ReadValue (Variable (RandomNormal [1, 2] (random_seed * 4)) False),
         ReadValue (Variable (RandomNormal [2, 1] (random_seed * 4)) False)]]"
  by (simp add: dummy_ensemble_spec_def Let_def weighted_subnetworks_def
      weighted_subnetwork_fields_def subnetwork_fields_def dummy_tensor_def)

text \<open>
  Claim C8. For a non-negative \<open>num_subnetworks\<close>, the ensemble of the returned spec has
  exactly that many weighted subnetworks, and each is the same record: the given name,
  iteration number 1, and the same tensors.
\<close>

theorem replicas:
  assumes "0 \<le> num_subnetworks"
  shows "int (length (cr_weighted_subnetworks (es_ensemble
           (dummy_ensemble_spec name random_seed num_subnetworks bias loss adanet_loss
              eval_metrics dict_predictions export_output_key subnetwork_builders train_op))))
         = num_subnetworks
       \<and> cr_weighted_subnetworks (es_ensemble
           (dummy_ensemble_spec name random_seed num_subnetworks bias loss adanet_loss
              eval_metrics dict_predictions export_output_key subnetwork_builders train_op))
         = replicate (nat num_subnetworks)
            \<lparr>ws_name = name,
             ws_iteration_number = 1,
             ws_logits = dummy_tensor [2, 1] (random_seed * 4),
             ws_weight = dummy_tensor [2, 1] (random_seed * 4),
             ws_subnetwork =
               \<lparr>sn_last_layer = dummy_tensor [1, 2] (random_seed * 4),
                sn_logits = dummy_tensor [2, 1] (random_seed * 4),
                sn_complexity = 1,
                sn_persisted_tensors = []\<rparr>\<rparr>"
  using assms
  by (simp add: dummy_ensemble_spec_def Let_def list_mul_def weighted_subnetworks_def
      concat_replicate_single)

theorem replicas_witness:
  "(0::int) \<le> 3
   \<and> length (cr_weighted_subnetworks (es_ensemble
        (dummy_ensemble_spec ''e'' 42 3 0 PNone PNone PNone False PNone PNone PNone))) = 3
   \<and> map ws_name (cr_weighted_subnetworks (es_ensemble
        (dummy_ensemble_spec ''e'' 42 3 0 PNone PNone PNone False PNone PNone PNone)))
      = [''e'', ''e'', ''e'']
   \<and> map ws_iteration_number (cr_weighted_subnetworks (es_ensemble
        (dummy_ensemble_spec ''e'' 42 3 0 PNone PNone PNone False PNone PNone PNone)))
      = [1, 1, 1]
   \<and> map ws_logits (cr_weighted_subnetworks (es_ensemble
        (dummy_ensemble_spec ''e'' 42 3 0 PNone PNone PNone False PNone PNone PNone)))
      = replicate 3 (ReadValue (Variable (RandomNormal [2, 1] 168) False))"
  using replicas [of 3 "''e''" 42 0 PNone PNone PNone False PNone PNone PNone]
  by (simp add: dummy_tensor_def numeral_3_eq_3)

section \<open>Paths and the file system\<close>








lemma rmtree_ignore_errors_result: "fst (rmtree refused path True fs) = Inr ()"
  by (simp add: rmtree_def split: option.split entry.split)

lemma rmtree_missing:
  "fs path = None \<Longrightarrow> snd (rmtree refused path ignore_errors fs) = fs"
  by (simp add: rmtree_def)




lemma setUp_after_super:
  assumes "super_setUp env (files w) = (Inr (), fs1)"
  shows "setUp env w =
     (fst (makedirs (os_path_join (test_tmpdir env) (test_id env))
            (snd (rmtree (undeletable env) (os_path_join (test_tmpdir env) (test_id env))
                   True fs1))),
      w\<lparr>files := snd (makedirs (os_path_join (test_tmpdir env) (test_id env))
            (snd (rmtree (undeletable env) (os_path_join (test_tmpdir env) (test_id env))
                   True fs1))),
        test_subdirectory := Some (os_path_join (test_tmpdir env) (test_id env))\<rparr>)"
proof -
  let ?dir = "os_path_join (test_tmpdir env) (test_id env)"
  obtain r fs2 where rm: "rmtree (undeletable env) ?dir True fs1 = (r, fs2)"
    by (cases "rmtree (undeletable env) ?dir True fs1")
  with rmtree_ignore_errors_result [of "undeletable env" ?dir fs1]
  have r: "r = Inr ()" by simp
  obtain r3 fs3 where mk: "makedirs ?dir fs2 = (r3, fs3)"
    by (cases "makedirs ?dir fs2")
  show ?thesis
    using assms rm r mk by (simp add: setUp_def Let_def)
qed


lemma tearDown_after_super:
  assumes "super_tearDown env (files w) = (Inr (), fs1)" and "test_subdirectory w = Some dir"
  shows "tearDown env w = (Inr (), w\<lparr>files := snd (rmtree (undeletable env) dir True fs1)\<rparr>)"
proof -
  obtain r fs2 where rm: "rmtree (undeletable env) dir True fs1 = (r, fs2)"
    by (cases "rmtree (undeletable env) dir True fs1")
  with rmtree_ignore_errors_result [of "undeletable env" dir fs1] have "r = Inr ()" by simp
  with assms rm show ?thesis by (simp add: tearDown_def)
qed



lemma ancestors_examples:
  "ancestors ''/tmp'' = []"
  "ancestors ''/tmp/t'' = [''/tmp'']"
  "ancestors ''/tmp/t/old'' = [''/tmp'', ''/tmp/t'']"
  by (simp_all add: ancestors_def)

lemma example_dir: "os_path_join (test_tmpdir example_env) (test_id example_env) = ''/tmp/t''"
  by (simp add: example_env_def os_path_join_def startswith_sep_def)





section \<open>The test directory\<close>

text \<open>
  Claim C3. The removal of \<open>test_subdirectory\<close> in \<^verbatim>\<open>setUp\<close> and in \<^verbatim>\<open>tearDown\<close> never
  raises: \<^verbatim>\<open>shutil.rmtree\<close> with \<^verbatim>\<open>ignore_errors=True\<close> returns normally on every file
  system, whatever the operating system refuses to remove. When the directory does not
  exist, the removal changes nothing, where the same call without \<^verbatim>\<open>ignore_errors\<close>
  raises \<^verbatim>\<open>FileNotFoundError\<close> (\<^verbatim>\<open>NotADirectoryError\<close> below a regular file); \<^verbatim>\<open>setUp\<close>
  then behaves as \<^verbatim>\<open>os.makedirs\<close> alone, and \<^verbatim>\<open>tearDown\<close> returns normally and leaves
  the file system as the parent's \<^verbatim>\<open>tearDown\<close> left it.
\<close>

theorem removal_never_raises:
  "fst (rmtree refused dir True fs) = Inr ()
   \<and> (fs dir = None \<longrightarrow>
        rmtree refused dir True fs = (Inr (), fs)
        \<and> rmtree refused dir False fs
            = (Inl (if list_ex (\<lambda>a. fs a = Some RegularFile) (ancestors dir)
                    then NotADirectoryError else FileNotFoundError), fs)
        \<and> (super_setUp env (files w) = (Inr (), fs)
             \<and> os_path_join (test_tmpdir env) (test_id env) = dir \<longrightarrow>
             setUp env w =
               (fst (makedirs dir fs),
                w\<lparr>files := snd (makedirs dir fs), test_subdirectory := Some dir\<rparr>))
        \<and> (super_tearDown env (files w) = (Inr (), fs) \<and> test_subdirectory w = Some dir \<longrightarrow>
             tearDown env w = (Inr (), w\<lparr>files := fs\<rparr>)))"
proof (intro conjI impI)
  show "fst (rmtree refused dir True fs) = Inr ()"
    by (rule rmtree_ignore_errors_result)
next
  assume "fs dir = None"
  then show "rmtree refused dir True fs = (Inr (), fs)"
    and "rmtree refused dir False fs
        = (Inl (if list_ex (\<lambda>a. fs a = Some RegularFile) (ancestors dir)
                then NotADirectoryError else FileNotFoundError), fs)"
    by (simp_all add: rmtree_def)
next
  assume missing: "fs dir = None"
    and "super_setUp env (files w) = (Inr (), fs)
         \<and> os_path_join (test_tmpdir env) (test_id env) = dir"
  then have sup: "super_setUp env (files w) = (Inr (), fs)"
    and dir: "os_path_join (test_tmpdir env) (test_id env) = dir"
    by simp_all
  from setUp_after_super [OF sup] dir
    rmtree_missing [of fs dir "undeletable env" True, OF missing]
  show "setUp env w =
      (fst (makedirs dir fs), w\<lparr>files := snd (makedirs dir fs), test_subdirectory := Some dir\<rparr>)"
    by simp
next
  assume missing: "fs dir = None"
    and "super_tearDown env (files w) = (Inr (), fs) \<and> test_subdirectory w = Some dir"
  then have sup: "super_tearDown env (files w) = (Inr (), fs)"
    and attr: "test_subdirectory w = Some dir"
    by simp_all
  from tearDown_after_super [OF sup attr]
    rmtree_missing [of fs dir "undeletable env" True, OF missing]
  show "tearDown env w = (Inr (), w\<lparr>files := fs\<rparr>)"
    by simp
qed

theorem removal_never_raises_witness:
  "files clean_world ''/tmp/t'' = None
   \<and> rmtree [] ''/tmp/t'' True (files clean_world) = (Inr (), files clean_world)
   \<and> rmtree [] ''/tmp/t'' False (files clean_world)
       = (Inl FileNotFoundError, files clean_world)
   \<and> fst (setUp example_env clean_world) = Inr ()
   \<and> tearDown example_env (clean_world\<lparr>test_subdirectory := Some ''/tmp/t''\<rparr>)
       = (Inr (), clean_world\<lparr>test_subdirectory := Some ''/tmp/t''\<rparr>)"
proof -
  have missing: "files clean_world ''/tmp/t'' = None"
    by (simp add: clean_world_def)
  have nofile: "\<not> list_ex (\<lambda>a. files clean_world a = Some RegularFile) (ancestors ''/tmp/t'')"
    by (simp add: clean_world_def ancestors_examples)
  have up: "super_setUp example_env (files clean_world) = (Inr (), files clean_world)
      \<and> os_path_join (test_tmpdir example_env) (test_id example_env) = ''/tmp/t''"
    by (simp add: example_dir) (simp add: example_env_def returns_def)
  have down: "super_tearDown example_env
        (files (clean_world\<lparr>test_subdirectory := Some ''/tmp/t''\<rparr>))
      = (Inr (), files clean_world)
      \<and> test_subdirectory (clean_world\<lparr>test_subdirectory := Some ''/tmp/t''\<rparr>)
        = Some ''/tmp/t''"
    by (simp add: example_env_def returns_def)
  have made: "fst (makedirs ''/tmp/t'' (files clean_world)) = Inr ()"
    by (simp add: makedirs_def clean_world_def ancestors_examples)
  from removal_never_raises [of "[]" "''/tmp/t''" "files clean_world" example_env clean_world]
    missing nofile up made
  have a: "rmtree [] ''/tmp/t'' True (files clean_world) = (Inr (), files clean_world)"
    and b: "rmtree [] ''/tmp/t'' False (files clean_world)
      = (Inl FileNotFoundError, files clean_world)"
    and c: "fst (setUp example_env clean_world) = Inr ()"
    by simp_all
  from removal_never_raises [of "[]" "''/tmp/t''" "files clean_world" example_env
      "clean_world\<lparr>test_subdirectory := Some ''/tmp/t''\<rparr>"] missing down
  have d: "tearDown example_env (clean_world\<lparr>test_subdirectory := Some ''/tmp/t''\<rparr>)
      = (Inr (), clean_world\<lparr>test_subdirectory := Some ''/tmp/t''\<rparr>)"
    by simp
  from missing a b c d show ?thesis by blast
qed




end
